theory Spec2Isabelle
  imports Main
begin

section \<open>The MODFLOW stream package reader and writer (flopy/modflow/mfstr.py)\<close>

text \<open>
  A shallow embedding of the class \<open>ModflowStr\<close>: its static methods \<open>get_default_dtype\<close>,
  \<open>get_empty\<close> and \<open>load\<close>, and its method \<open>write_file\<close>. Python exceptions are values
  of the type \<open>error\<close>; a function that can raise returns \<open>error + 'a\<close>, with \<open>Inl\<close> the
  exception.
\<close>

subsection \<open>Exceptions\<close>

datatype error =
    NameError            \<comment> \<open>a global name that no import binds\<close>
  | UnboundLocalError    \<comment> \<open>a local variable read before any assignment\<close>
  | TypeError
  | ValueError
  | IndexError
  | OverflowError
  | AssertionError
  | AttributeError       \<comment> \<open>an attribute or method looked up on \<open>None\<close>\<close>
  | IOError
  | SchemaError          \<comment> \<open>raised by \<open>Package.add_to_dtype\<close>, see below\<close>

definition bindE :: "error + 'a \<Rightarrow> ('a \<Rightarrow> error + 'b) \<Rightarrow> error + 'b" where
  "bindE x f = (case x of Inl e \<Rightarrow> Inl e | Inr v \<Rightarrow> f v)"

subsection \<open>Python strings\<close>

text \<open>
  \<open>str.strip()\<close>, \<open>str.split()\<close> and \<open>str.lower()\<close> on ASCII text. White space is the
  ASCII white space (codes 9 to 13 and 32).
\<close>

definition is_space :: "char \<Rightarrow> bool" where
  "is_space c = (let n = (of_char c :: nat) in (9 \<le> n \<and> n \<le> 13) \<or> n = 32)"

definition py_strip :: "string \<Rightarrow> string" where
  "py_strip s = rev (dropWhile is_space (rev (dropWhile is_space s)))"

fun tokens :: "string \<Rightarrow> string \<Rightarrow> string list" where
  "tokens [] cur = (if cur = [] then [] else [cur])"
| "tokens (c # cs) cur =
     (if is_space c then (if cur = [] then tokens cs [] else cur # tokens cs [])
      else tokens cs (cur @ [c]))"

definition py_split :: "string \<Rightarrow> string list" where
  "py_split s = tokens s []"

definition lower_char :: "char \<Rightarrow> char" where
  "lower_char c =
     (case map_of (zip ''ABCDEFGHIJKLMNOPQRSTUVWXYZ'' ''abcdefghijklmnopqrstuvwxyz'') c of
        None \<Rightarrow> c | Some l \<Rightarrow> l)"

definition py_lower :: "string \<Rightarrow> string" where
  "py_lower s = map lower_char s"

fun starts_with :: "string \<Rightarrow> string \<Rightarrow> bool" where
  "starts_with [] s = True"
| "starts_with (p # ps) [] = False"
| "starts_with (p # ps) (c # cs) = (p = c \<and> starts_with ps cs)"

text \<open>The operator \<open>sub in s\<close> on strings.\<close>

fun py_in :: "string \<Rightarrow> string \<Rightarrow> bool" where
  "py_in sub [] = (sub = [])"
| "py_in sub (c # cs) = (starts_with sub (c # cs) \<or> py_in sub cs)"

text \<open>Indexing a list, \<open>t[i]\<close> with \<open>i \<ge> 0\<close>: out of range raises IndexError.\<close>

definition getitem :: "'a list \<Rightarrow> nat \<Rightarrow> error + 'a" where
  "getitem xs i = (if i < length xs then Inr (xs ! i) else Inl IndexError)"

text \<open>
  \<open>int(s)\<close> on a token (a string without white space): an optional sign and at least one
  decimal digit. Anything else raises ValueError, here \<open>None\<close>.
\<close>

definition digit_val :: "char \<Rightarrow> int option" where
  "digit_val c = map_of (zip ''0123456789'' [0, 1, 2, 3, 4, 5, 6, 7, 8, 9]) c"

fun digits_val :: "string \<Rightarrow> int \<Rightarrow> int option" where
  "digits_val [] acc = Some acc"
| "digits_val (c # cs) acc =
     (case digit_val c of None \<Rightarrow> None | Some d \<Rightarrow> digits_val cs (10 * acc + d))"

definition dec_literal :: "string \<Rightarrow> int option" where
  "dec_literal s = (if s = [] then None else digits_val s 0)"

definition py_int :: "string \<Rightarrow> int option" where
  "py_int s =
     (case s of
        [] \<Rightarrow> None
      | c # cs \<Rightarrow>
          if c = CHR ''-'' then map_option uminus (dec_literal cs)
          else if c = CHR ''+'' then dec_literal cs
          else dec_literal s)"

definition int_of_str :: "string \<Rightarrow> error + int" where
  "int_of_str s = (case py_int s of None \<Rightarrow> Inl ValueError | Some v \<Rightarrow> Inr v)"

subsection \<open>Numbers\<close>

text \<open>
  \<open>np.int\<close> is the 64-bit signed integer: arithmetic on an array wraps around, and storing
  a Python integer outside the range raises OverflowError.

  Floating point is a parameter of the model: \<open>'d\<close> stands for the Python float (a
  double) and \<open>'f\<close> for \<open>np.float32\<close>, with the operations the program applies to them.
\<close>

definition wrap64 :: "int \<Rightarrow> int" where
  "wrap64 x = (x + 2 ^ 63) mod 2 ^ 64 - 2 ^ 63"

definition in_int64 :: "int \<Rightarrow> bool" where
  "in_int64 x = (- (2 ^ 63) \<le> x \<and> x < 2 ^ 63)"

record ('d, 'f) numeric =
  float_of_str :: "string \<Rightarrow> 'd option"   \<comment> \<open>\<open>float(s)\<close>; \<open>None\<close> is ValueError\<close>
  to_float32 :: "'d \<Rightarrow> 'f"                 \<comment> \<open>storing a float in a float32 field\<close>
  to_int64 :: "'d \<Rightarrow> int"                  \<comment> \<open>storing a float in an integer field\<close>
  neg_1e10 :: "'d"                        \<comment> \<open>the literal \<open>-1.0E+10\<close>\<close>
  float_zero :: "'d"                      \<comment> \<open>the entries of \<open>np.zeros\<close>\<close>
  f32_sub_one :: "'f \<Rightarrow> 'f"                \<comment> \<open>\<open>x - 1\<close> on float32\<close>

subsection \<open>Record arrays\<close>

datatype ftype = NpInt | NpFloat32

type_synonym dtype = "(string \<times> ftype) list"

datatype 'f cell = IntC int | FloatC 'f

record 'f recarray =
  ra_dtype :: dtype
  ra_rows :: "'f cell list list"

definition get_default_dtype :: "bool \<Rightarrow> dtype" where
  "get_default_dtype structured =
     (if structured then
        [(''k'', NpInt), (''i'', NpInt), (''j'', NpInt),
         (''segment'', NpInt), (''reach'', NpInt),
         (''flow'', NpFloat32), (''stage'', NpFloat32),
         (''cond'', NpFloat32), (''sbot'', NpFloat32),
         (''stop'', NpFloat32)]
      else
        [(''node'', NpInt),
         (''segment'', NpInt), (''reach'', NpInt),
         (''flow'', NpFloat32), (''stage'', NpFloat32),
         (''cond'', NpFloat32), (''sbot'', NpFloat32),
         (''stop'', NpFloat32)])"

text \<open>
  Modelled from the spec: \<open>Package.add_to_dtype\<close> (flopy/mbase.py) is not among the
  sources. The specification's \<open>withAuxFields\<close> appends one numeric field per name, in
  order, and fails with SchemaError on a duplicate name, compared without regard to case.
\<close>

definition add_to_dtype :: "dtype \<Rightarrow> string list \<Rightarrow> ftype \<Rightarrow> error + dtype" where
  "add_to_dtype dt field_names field_type =
     (if distinct (map py_lower (map fst dt @ field_names))
      then Inr (dt @ map (\<lambda>n. (n, field_type)) field_names)
      else Inl SchemaError)"

text \<open>A scalar stored in a field is cast to the field's type.\<close>

definition cast_cell :: "('d, 'f) numeric \<Rightarrow> ftype \<Rightarrow> 'd \<Rightarrow> 'f cell" where
  "cast_cell np ty x = (case ty of NpInt \<Rightarrow> IntC (to_int64 np x) | NpFloat32 \<Rightarrow> FloatC (to_float32 np x))"

text \<open>
  \<open>get_empty\<close>: \<open>np.zeros((ncells, len(dtype)), dtype)\<close> raises ValueError on a negative
  dimension; \<open>d[:, :] = -1.0E+10\<close> stores the scalar in every field, and \<open>fromarrays\<close>
  of the transpose gives one record per cell. \<open>aux_names\<close> is \<open>None\<close> or a list.
\<close>

definition get_empty ::
  "('d, 'f) numeric \<Rightarrow> int \<Rightarrow> string list option \<Rightarrow> bool \<Rightarrow> error + 'f recarray" where
  "get_empty np ncells aux_names structured =
     bindE (case aux_names of
              None \<Rightarrow> Inr (get_default_dtype structured)
            | Some names \<Rightarrow> add_to_dtype (get_default_dtype structured) names NpFloat32)
       (\<lambda>dt. if ncells < 0 then Inl ValueError
             else Inr \<lparr>ra_dtype = dt,
                       ra_rows = replicate (nat ncells)
                                   (map (\<lambda>(n, ty). cast_cell np ty (neg_1e10 np)) dt)\<rparr>)"

subsection \<open>Reading the file\<close>

text \<open>
  The open file is its unread text. \<open>f.readline()\<close> returns the text up to and including
  the next line break, and the empty string only at the end of the file.
\<close>

fun readline :: "string \<Rightarrow> string \<times> string" where
  "readline [] = ([], [])"
| "readline (c # cs) =
     (if c = CHR ''\<newline>'' then ([c], cs)
      else (case readline cs of (l, r) \<Rightarrow> (c # l, r)))"

lemma readline_rest_le: "length (snd (readline s)) \<le> length s"
  by (induction s) (auto split: prod.splits)

lemma readline_shorter: "readline s = (l, r) \<Longrightarrow> l \<noteq> [] \<Longrightarrow> length r < length s"
proof (cases s)
  case Nil
  assume "readline s = (l, r)" "l \<noteq> []"
  with Nil show ?thesis by simp
next
  case (Cons c cs)
  assume h: "readline s = (l, r)"
  have "length (snd (readline cs)) \<le> length cs" by (rule readline_rest_le)
  with h Cons show ?thesis by (auto split: if_splits prod.splits)
qed

text \<open>
  Dataset 0 (lines 223 to 226): lines are read until one does not start with \<open>#\<close>. At the
  end of the file \<open>line[0]\<close> raises IndexError.
\<close>

function read_header :: "string \<Rightarrow> error + (string \<times> string)" where
  "read_header f =
     (case readline f of (line, rest) \<Rightarrow>
        (case line of
           [] \<Rightarrow> Inl IndexError
         | c # cs \<Rightarrow> if c \<noteq> CHR ''#'' then Inr (line, rest) else read_header rest))"
  by pat_completeness auto
termination
  by (relation "measure length") (auto dest: readline_shorter [OF sym])

declare read_header.simps [simp del]

definition int_at :: "string list \<Rightarrow> nat \<Rightarrow> error + int" where
  "int_at t i = bindE (getitem t i) int_of_str"

definition float_at :: "('d, 'f) numeric \<Rightarrow> string list \<Rightarrow> nat \<Rightarrow> error + 'd" where
  "float_at np t i =
     bindE (getitem t i)
       (\<lambda>s. case float_of_str np s of None \<Rightarrow> Inl ValueError | Some d \<Rightarrow> Inr d)"

text \<open>
  The entry of a period in the dictionary \<open>stress_period_data\<close>: the integer \<open>itmp\<close>
  when \<open>bnd_output\<close> is \<open>None\<close>, the record array otherwise (lines 410 to 413).
\<close>

datatype 'f sp_entry = SPInt int | SPArr "'f recarray"

text \<open>The local variables of \<open>load\<close>; a local that is not bound yet is \<open>None\<close>.\<close>

record ('d, 'f) locals =
  fh :: string
  npstr :: int
  mxl :: int
  mxacts :: int
  nss :: int
  ntrib :: int
  ndiv :: int
  icalc :: int
  const :: 'd
  istcb1 :: int
  istcb2 :: int
  ipakcb :: int
  pop_key_list :: "int list"    \<comment> \<open>the calls of \<open>model.add_pop_key_list\<close>\<close>
  options :: "string list"
  aux_names :: "string list"
  current :: "'f recarray option"
  tds8 :: "('d \<times> 'd \<times> 'd) list option"
  stress_period_data :: "nat \<rightharpoonup> 'f sp_entry"
  ds8 :: "nat \<rightharpoonup> ('d \<times> 'd \<times> 'd) list"
  ds9 :: "nat \<rightharpoonup> unit"
  ds10 :: "nat \<rightharpoonup> unit"

text \<open>
  Lines 268 to 276, over the tokens from position 8 on: a token that contains \<open>aux\<close>
  takes the next token as the name of an auxiliary variable; \<open>t[it + 1]\<close> raises
  IndexError when there is none.
\<close>

fun scan_options ::
  "string list \<Rightarrow> string list \<Rightarrow> string list \<Rightarrow> error + (string list \<times> string list)" where
  "scan_options [] opts aux = Inr (opts, aux)"
| "scan_options (toption # rest) opts aux =
     (if py_in ''aux'' (py_lower toption) then
        (case rest of
           [] \<Rightarrow> Inl IndexError
         | nm # rest' \<Rightarrow>
             scan_options rest' (opts @ [toption @ '' '' @ nm]) (aux @ [py_lower nm]))
      else scan_options rest opts aux)"

text \<open>
  Datasets 1 and 2 (lines 228 to 281). When parameters are declared (\<open>npstr > 0\<close>), line 281
  calls \<open>mfparbc.load\<close>; the module imports \<open>sys\<close>, \<open>numpy\<close>, \<open>Package\<close> and \<open>mflist\<close>
  only, so the name \<open>mfparbc\<close> is not bound and the call raises NameError.
\<close>

definition read_dataset1 :: "string \<Rightarrow> string \<Rightarrow> error + (int \<times> int \<times> string \<times> string)" where
  "read_dataset1 line f =
     (let t = py_split (py_strip line) in
      bindE (getitem t 0) (\<lambda>t0.
        if py_lower t0 = ''parameter'' then
          bindE (int_at t 1) (\<lambda>npstr.
          bindE (int_at t 2) (\<lambda>mxl.
            case readline f of (line', f') \<Rightarrow> Inr (npstr, mxl, line', f')))
        else Inr (0, 0, line, f)))"

definition read_datasets :: "('d, 'f) numeric \<Rightarrow> string \<Rightarrow> error + ('d, 'f) locals" where
  "read_datasets np f0 =
     bindE (read_header f0) (\<lambda>(line0, f1).
     bindE (read_dataset1 line0 f1) (\<lambda>(npstr, mxl, line, f).
       let t = py_split (py_strip line) in
       bindE (int_at t 0) (\<lambda>mxacts.
       bindE (int_at t 1) (\<lambda>nss.
       bindE (int_at t 2) (\<lambda>ntrib.
       bindE (int_at t 3) (\<lambda>ndiv.
       bindE (int_at t 4) (\<lambda>icalc.
       bindE (float_at np t 5) (\<lambda>const.
       bindE (int_at t 6) (\<lambda>istcb1.
       bindE (int_at t 7) (\<lambda>istcb2.
       bindE (scan_options (drop 8 t) [] []) (\<lambda>(opts, aux).
       bindE (if npstr > 0
              then bindE (get_empty np 1 (Some aux) True) (\<lambda>e. Inl NameError)
              else Inr ()) (\<lambda>_.
         Inr \<lparr>fh = f, npstr = npstr, mxl = mxl, mxacts = mxacts, nss = nss, ntrib = ntrib,
              ndiv = ndiv, icalc = icalc, const = const, istcb1 = istcb1, istcb2 = istcb2,
              ipakcb = (if istcb1 \<noteq> 0 \<or> istcb2 \<noteq> 0 then 53 else 0),
              pop_key_list = (if istcb1 \<noteq> 0 then [istcb1] else []) @
                             (if istcb2 \<noteq> 0 then [istcb2] else []),
              options = opts, aux_names = aux,
              current = None, tds8 = None, stress_period_data = Map.empty,
              ds8 = Map.empty, ds9 = Map.empty, ds10 = Map.empty\<rparr>))))))))))))"

subsection \<open>Record lines\<close>

text \<open>
  \<open>current[ibnd] = tuple(values)\<close>: the tuple must have one value per field, and NumPy
  converts each string to the field's type as \<open>int\<close> and \<open>float\<close> do.
\<close>

definition convert_field :: "('d, 'f) numeric \<Rightarrow> ftype \<Rightarrow> string \<Rightarrow> error + 'f cell" where
  "convert_field np ty tok =
     (case ty of
        NpInt \<Rightarrow>
          (case py_int tok of
             None \<Rightarrow> Inl ValueError
           | Some v \<Rightarrow> if in_int64 v then Inr (IntC v) else Inl OverflowError)
      | NpFloat32 \<Rightarrow>
          (case float_of_str np tok of
             None \<Rightarrow> Inl ValueError
           | Some d \<Rightarrow> Inr (FloatC (to_float32 np d))))"

fun convert_fields :: "('d, 'f) numeric \<Rightarrow> ftype list \<Rightarrow> string list \<Rightarrow> error + 'f cell list" where
  "convert_fields np [] [] = Inr []"
| "convert_fields np (ty # tys) (tok # toks) =
     bindE (convert_field np ty tok) (\<lambda>c.
     bindE (convert_fields np tys toks) (\<lambda>cs. Inr (c # cs)))"
| "convert_fields np _ _ = Inl ValueError"

definition setitem_row ::
  "('d, 'f) numeric \<Rightarrow> 'f recarray \<Rightarrow> nat \<Rightarrow> string list \<Rightarrow> error + 'f recarray" where
  "setitem_row np a ibnd vals =
     (if ibnd < length (ra_rows a) then
        bindE (convert_fields np (map snd (ra_dtype a)) vals)
          (\<lambda>row. Inr (a\<lparr>ra_rows := (ra_rows a)[ibnd := row]\<rparr>))
      else Inl IndexError)"

text \<open>Lines 363 and 364, the body of the \<open>try\<close>.\<close>

definition free_format ::
  "('d, 'f) numeric \<Rightarrow> 'f recarray \<Rightarrow> nat \<Rightarrow> string \<Rightarrow> error + 'f recarray" where
  "free_format np cur ibnd line =
     (let t = py_split (py_strip line)
      in setitem_row np cur ibnd (take (length (ra_dtype cur)) t))"

text \<open>
  Lines 366 to 377, the body of the \<open>except\<close>. \<open>ipos\<close> is a list, and \<open>ipos(ivar)\<close>
  calls it: a list is not callable, which raises TypeError. \<open>for ivar in len(aux_names)\<close>
  iterates over an integer, which raises TypeError as well.
\<close>

definition call_list :: "nat list \<Rightarrow> nat \<Rightarrow> error + nat" where
  "call_list xs i = Inl TypeError"

fun fixed_slices ::
  "nat list \<Rightarrow> string \<Rightarrow> nat list \<Rightarrow> nat \<Rightarrow> string list \<Rightarrow> error + (string list \<times> nat)" where
  "fixed_slices ipos line [] istart t = Inr (t, istart)"
| "fixed_slices ipos line (ivar # ivars) istart t =
     bindE (call_list ipos ivar) (\<lambda>w.
       let istop = istart + w
       in fixed_slices ipos line ivars (istop + 1) (t @ [take (istop - istart) (drop istart line)]))"

definition record_ipos :: "nat list" where
  "record_ipos = [5, 5, 5, 5, 5, 15, 10, 10, 10, 10]"

definition fixed_format ::
  "('d, 'f) numeric \<Rightarrow> string list \<Rightarrow> 'f recarray \<Rightarrow> nat \<Rightarrow> string \<Rightarrow> error + 'f recarray" where
  "fixed_format np aux cur ibnd line =
     bindE (fixed_slices record_ipos line [0..<length record_ipos] 0 []) (\<lambda>(t, istart).
     bindE (if length aux > 0 then Inl TypeError else Inr t) (\<lambda>t'.
       setitem_row np cur ibnd (take (length (ra_dtype cur)) t')))"

definition parse_record ::
  "('d, 'f) numeric \<Rightarrow> string list \<Rightarrow> 'f recarray \<Rightarrow> nat \<Rightarrow> string \<Rightarrow> error + 'f recarray" where
  "parse_record np aux cur ibnd line =
     (case free_format np cur ibnd line of
        Inr cur' \<Rightarrow> Inr cur'
      | Inl e \<Rightarrow> fixed_format np aux cur ibnd line)"

text \<open>
  Lines 349 to 361, the external file of an \<open>open/close\<close> line. Line 349 calls
  \<open>os.path.join\<close>; the module does not import \<open>os\<close>, so the name is not bound and the call
  raises NameError before the file is looked at. The row count check of line 358 is never
  reached.
\<close>

definition open_close :: "string \<Rightarrow> int \<Rightarrow> 'f recarray \<Rightarrow> error + 'f recarray" where
  "open_close line itmp cur = Inl NameError"

text \<open>Lines 345 to 377: the loop over the \<open>itmp\<close> record lines of a period.\<close>

fun read_records ::
  "('d, 'f) numeric \<Rightarrow> string list \<Rightarrow> int \<Rightarrow> nat list \<Rightarrow> string \<Rightarrow> 'f recarray
     \<Rightarrow> error + (string \<times> 'f recarray)" where
  "read_records np aux itmp [] f cur = Inr (f, cur)"
| "read_records np aux itmp (ibnd # rest) f cur =
     (case readline f of (line, f') \<Rightarrow>
        if py_in ''open/close'' (py_lower line)
        then bindE (open_close line itmp cur) (\<lambda>cur'. Inr (f', cur'))
        else bindE (parse_record np aux cur ibnd line) (\<lambda>cur'.
               read_records np aux itmp rest f' cur'))"

text \<open>
  Lines 310 to 341, the parameters of a period. They use \<open>pak_parms\<close>, which only line 281
  assigns, and line 281 raises: the first use outside a \<open>try\<close>, \<open>pak_parms.get(pname)\<close>,
  finds the local unbound.
\<close>

definition read_parameters :: "string \<Rightarrow> error + (string \<times> 'f recarray)" where
  "read_parameters f =
     (case readline f of (line, f') \<Rightarrow>
        bindE (getitem (py_split (py_strip line)) 0) (\<lambda>pname. Inl UnboundLocalError))"

text \<open>\<open>current['k'] -= 1\<close>: the field of every record, in place.\<close>

fun index_of :: "string \<Rightarrow> string list \<Rightarrow> nat option" where
  "index_of nm [] = None"
| "index_of nm (x # xs) = (if x = nm then Some 0 else map_option Suc (index_of nm xs))"

definition sub_one :: "('d, 'f) numeric \<Rightarrow> 'f cell \<Rightarrow> 'f cell" where
  "sub_one np c = (case c of IntC v \<Rightarrow> IntC (wrap64 (v - 1)) | FloatC x \<Rightarrow> FloatC (f32_sub_one np x))"

definition isub_field :: "('d, 'f) numeric \<Rightarrow> string \<Rightarrow> 'f recarray \<Rightarrow> error + 'f recarray" where
  "isub_field np nm a =
     (case index_of nm (map fst (ra_dtype a)) of
        None \<Rightarrow> Inl ValueError
      | Some c \<Rightarrow> Inr (a\<lparr>ra_rows := map (\<lambda>row. row[c := sub_one np (row ! c)]) (ra_rows a)\<rparr>))"

text \<open>Lines 387 to 402: dataset 8, three numbers per record.\<close>

definition ds8_values :: "('d, 'f) numeric \<Rightarrow> string list \<Rightarrow> error + ('d \<times> 'd \<times> 'd)" where
  "ds8_values np t =
     bindE (float_at np t 0) (\<lambda>v1.
     bindE (float_at np t 1) (\<lambda>v2.
     bindE (float_at np t 2) (\<lambda>v3. Inr (v1, v2, v3))))"

definition parse_ds8 :: "('d, 'f) numeric \<Rightarrow> string \<Rightarrow> error + ('d \<times> 'd \<times> 'd)" where
  "parse_ds8 np line =
     (case ds8_values np (py_split (py_strip line)) of
        Inr v \<Rightarrow> Inr v
      | Inl e \<Rightarrow>
          bindE (fixed_slices [10, 10, 10] line [0..<3] 0 []) (\<lambda>(t, istart). ds8_values np t))"

fun read_ds8 ::
  "('d, 'f) numeric \<Rightarrow> nat list \<Rightarrow> string \<Rightarrow> ('d \<times> 'd \<times> 'd) list
     \<Rightarrow> error + (string \<times> ('d \<times> 'd \<times> 'd) list)" where
  "read_ds8 np [] f tds = Inr (f, tds)"
| "read_ds8 np (ibnd # rest) f tds =
     (case readline f of (line, f') \<Rightarrow>
        bindE (parse_ds8 np line) (\<lambda>v. read_ds8 np rest f' (tds[ibnd := v])))"

subsection \<open>Stress periods\<close>

text \<open>Lines 296 to 302: the control line \<open>itmp [irdflg] [iptflg]\<close> of a period.\<close>

definition control_line :: "string \<Rightarrow> error + (int \<times> int \<times> int)" where
  "control_line line =
     (let t = py_split (py_strip line) in
      bindE (int_at t 0) (\<lambda>itmp.
      bindE (if length t > 1 then int_at t 1 else Inr 0) (\<lambda>irdflg.
      bindE (if length t > 2 then int_at t 2 else Inr 0) (\<lambda>iptflg.
        Inr (itmp, irdflg, iptflg)))))"

text \<open>Lines 305 and 306, \<open>itmp = 0\<close>: no records; \<open>bnd_output\<close> is \<open>None\<close>.\<close>

definition period_empty ::
  "('d, 'f) numeric \<Rightarrow> nat \<Rightarrow> int \<Rightarrow> ('d, 'f) locals \<Rightarrow> error + ('d, 'f) locals" where
  "period_empty np iper itmp s =
     bindE (get_empty np itmp (Some (aux_names s)) True) (\<lambda>cur.
       Inr (s\<lparr>current := Some cur,
              stress_period_data := (stress_period_data s)(iper \<mapsto> SPInt itmp)\<rparr>))"

text \<open>Lines 308 to 377, \<open>itmp > 0\<close>: the records, from parameters or from the lines.\<close>

definition period_records ::
  "('d, 'f) numeric \<Rightarrow> int \<Rightarrow> ('d, 'f) locals \<Rightarrow> error + (string \<times> 'f recarray)" where
  "period_records np itmp s =
     (if npstr s > 0 then read_parameters (fh s)
      else bindE (get_empty np itmp (Some (aux_names s)) True) (\<lambda>cur.
             read_records np (aux_names s) itmp [0..<nat itmp] (fh s) cur))"

text \<open>Lines 380 to 382: the indices become zero-based.\<close>

definition to_zero_based :: "('d, 'f) numeric \<Rightarrow> 'f recarray \<Rightarrow> error + 'f recarray" where
  "to_zero_based np cur0 =
     bindE (isub_field np ''k'' cur0) (\<lambda>cur1.
     bindE (isub_field np ''i'' cur1) (\<lambda>cur2.
       isub_field np ''j'' cur2))"

text \<open>
  Lines 386 to 402: with \<open>icalc > 0\<close> the values of dataset 8 are read into the local
  \<open>tds8\<close>. No statement stores \<open>tds8\<close> in the dictionary \<open>ds8\<close> or anywhere else.
\<close>

definition period_ds8 ::
  "('d, 'f) numeric \<Rightarrow> int \<Rightarrow> string \<Rightarrow> ('d, 'f) locals
     \<Rightarrow> error + (string \<times> ('d \<times> 'd \<times> 'd) list option)" where
  "period_ds8 np itmp f1 s =
     (if icalc s > 0
      then bindE (read_ds8 np [0..<nat itmp] f1
                    (replicate (nat itmp) (float_zero np, float_zero np, float_zero np)))
             (\<lambda>(f2, tds). Inr (f2, Some tds))
      else Inr (f1, tds8 s))"

definition period_explicit ::
  "('d, 'f) numeric \<Rightarrow> nat \<Rightarrow> int \<Rightarrow> ('d, 'f) locals \<Rightarrow> error + ('d, 'f) locals" where
  "period_explicit np iper itmp s =
     bindE (period_records np itmp s) (\<lambda>(f1, cur0).
     bindE (to_zero_based np cur0) (\<lambda>cur3.
     bindE (period_ds8 np itmp f1 s) (\<lambda>(f2, tds).
       Inr (s\<lparr>fh := f2, current := Some cur3, tds8 := tds,
              stress_period_data := (stress_period_data s)(iper \<mapsto> SPArr cur3)\<rparr>))))"

text \<open>
  Line 406, \<open>itmp < 0\<close>: the previous \<open>current\<close> is copied. In the first period no
  assignment has bound \<open>current\<close> yet, and reading it raises UnboundLocalError.
\<close>

definition period_carry :: "nat \<Rightarrow> ('d, 'f) locals \<Rightarrow> error + ('d, 'f) locals" where
  "period_carry iper s =
     (case current s of
        None \<Rightarrow> Inl UnboundLocalError
      | Some cur \<Rightarrow>
          Inr (s\<lparr>stress_period_data := (stress_period_data s)(iper \<mapsto> SPArr cur)\<rparr>))"

text \<open>
  Lines 296 to 413, the body of the loop once the control line has been read and is not
  empty.
\<close>

definition load_period ::
  "('d, 'f) numeric \<Rightarrow> nat \<Rightarrow> string \<Rightarrow> ('d, 'f) locals \<Rightarrow> error + ('d, 'f) locals" where
  "load_period np iper line s =
     bindE (control_line line) (\<lambda>(itmp, irdflg, iptflg).
       if itmp = 0 then period_empty np iper itmp s
       else if itmp > 0 then period_explicit np iper itmp s
       else period_carry iper s)"

text \<open>Lines 290 to 413: the loop over the periods; an empty line read (end of file) leaves it.\<close>

fun load_periods ::
  "('d, 'f) numeric \<Rightarrow> nat list \<Rightarrow> ('d, 'f) locals \<Rightarrow> error + ('d, 'f) locals" where
  "load_periods np [] s = Inr s"
| "load_periods np (iper # rest) s =
     (case readline (fh s) of (line, f') \<Rightarrow>
        if line = [] then Inr s
        else bindE (load_period np iper line (s\<lparr>fh := f'\<rparr>)) (load_periods np rest))"

subsection \<open>The package object and \<open>load\<close>\<close>

text \<open>
  Modelled from the spec: the class \<open>mflist\<close> (flopy/utils/util_list.py) is not among the
  sources. The specification's TransientDataset maps each period index, in order, to a
  period entry, empty or an explicit list of records.
\<close>

datatype 'f period_entry = Empty | Explicit "'f recarray"

type_synonym 'f mflist = "'f period_entry list"

record 'f modflow_str =
  self_fn_path :: string
  self_heading :: string
  self_ipakcb :: int
  self_options :: "string list"
  self_stress_period_data :: "'f mflist"

record model =
  model_nper :: nat    \<comment> \<open>the last component of \<open>model.get_nrow_ncol_nlay_nper()\<close>\<close>

text \<open>The local variables of \<open>load\<close> when it reaches line 416.\<close>

definition load_locals ::
  "('d, 'f) numeric \<Rightarrow> string \<Rightarrow> model \<Rightarrow> nat option \<Rightarrow> error + ('d, 'f) locals" where
  "load_locals np f m nper =
     bindE (read_datasets np f) (\<lambda>s.
       load_periods np [0..<(case nper of None \<Rightarrow> model_nper m | Some n \<Rightarrow> n)] s)"

text \<open>Lines 222 to 417. The last two lines are \<open>str8 = None\<close> and \<open>return str8\<close>.\<close>

definition load_body ::
  "('d, 'f) numeric \<Rightarrow> string \<Rightarrow> model \<Rightarrow> nat option \<Rightarrow> error + 'f modflow_str option" where
  "load_body np f m nper =
     bindE (load_locals np f m nper) (\<lambda>s. let str8 = None in Inr str8)"

text \<open>
  Lines 218 to 220: \<open>f\<close> is a file name, which \<open>load\<close> opens, or a file handle. The file
  system maps a name to the text of the file. The list of handles names the files that a
  call of \<open>open\<close> has opened and no call of \<open>close\<close> has closed; \<open>load\<close> has no call of
  \<open>close\<close>. What the interpreter does with a file object that nothing refers to any more
  is outside the model.
\<close>

datatype file_arg = FileName string | FileHandle string

type_synonym files = "string \<rightharpoonup> string"

definition load ::
  "('d, 'f) numeric \<Rightarrow> file_arg \<Rightarrow> model \<Rightarrow> nat option \<Rightarrow> files \<Rightarrow> string list
     \<Rightarrow> (error + 'f modflow_str option) \<times> string list" where
  "load np f m nper fs handles =
     (case f of
        FileHandle text \<Rightarrow> (load_body np text m nper, handles)
      | FileName filename \<Rightarrow>
          (case fs filename of
             None \<Rightarrow> (Inl IOError, handles)
           | Some text \<Rightarrow> (load_body np text m nper, filename # handles)))"

subsection \<open>Writing the file\<close>

text \<open>Python's \<open>'{0:10d}'.format(n)\<close>: the decimal digits, right-justified with blanks.\<close>

fun show_nat :: "nat \<Rightarrow> string" where
  "show_nat n =
     (if n < 10 then [''0123456789'' ! n]
      else show_nat (n div 10) @ [''0123456789'' ! (n mod 10)])"

declare show_nat.simps [simp del]

definition show_int :: "int \<Rightarrow> string" where
  "show_int v = (if v < 0 then CHR ''-'' # show_nat (nat (- v)) else show_nat (nat v))"

definition rjust :: "nat \<Rightarrow> string \<Rightarrow> string" where
  "rjust w s = replicate (w - length s) CHR '' '' @ s"

definition format_d :: "nat \<Rightarrow> int \<Rightarrow> string" where
  "format_d w v = rjust w (show_int v)"

text \<open>
  The attribute \<open>mxact\<close> and the method \<open>write_transient\<close> of \<open>mflist\<close>
  (flopy/utils/util_list.py) are not among the sources: they are parameters.
  \<open>write_transient\<close> gives the text it writes to the open file, or raises.
\<close>

record 'f mflist_methods =
  mxact :: "'f mflist \<Rightarrow> int"
  write_transient :: "'f mflist \<Rightarrow> error + string"

text \<open>
  \<open>write_file\<close>, lines 163 to 171: the file is opened for writing, the heading and the
  first line are written, then the periods; \<open>close\<close> is the last statement. An exception
  of \<open>write_transient\<close> leaves the method before it.
\<close>

definition write_file ::
  "'f mflist_methods \<Rightarrow> 'f modflow_str \<Rightarrow> files \<Rightarrow> string list
     \<Rightarrow> (error + unit) \<times> files \<times> string list" where
  "write_file ml self fs handles =
     (let f_str = self_fn_path self;
          handles1 = f_str # handles;
          text1 = self_heading self @ ''\<newline>'';
          line = format_d 10 (mxact ml (self_stress_period_data self)) @
                 format_d 10 (self_ipakcb self) @
                 concat (map (\<lambda>opt. '' '' @ opt) (self_options self)) @ ''\<newline>'';
          text2 = text1 @ line
      in case write_transient ml (self_stress_period_data self) of
           Inl e \<Rightarrow> (Inl e, fs(f_str \<mapsto> text2), handles1)
         | Inr written \<Rightarrow>
             (Inr (), fs(f_str \<mapsto> text2 @ written), remove1 f_str handles1))"

text \<open>
  The round trip that the specification names \<open>write(load(x))\<close>, that is
  \<open>ModflowStr.load(f, model).write_file()\<close>: the method is looked up on the value that
  \<open>load\<close> returns, and on \<open>None\<close> the lookup raises AttributeError.
\<close>

definition load_then_write ::
  "'f mflist_methods \<Rightarrow> ('d, 'f) numeric \<Rightarrow> file_arg \<Rightarrow> model \<Rightarrow> nat option \<Rightarrow> files
     \<Rightarrow> string list \<Rightarrow> (error + unit) \<times> files \<times> string list" where
  "load_then_write ml np f m nper fs handles =
     (case load np f m nper fs handles of
        (Inl e, handles1) \<Rightarrow> (Inl e, fs, handles1)
      | (Inr None, handles1) \<Rightarrow> (Inl AttributeError, fs, handles1)
      | (Inr (Some str8), handles1) \<Rightarrow> write_file ml str8 fs handles1)"

subsection \<open>The lines of a period\<close>

text \<open>
  For stating properties of the records: the text after \<open>n\<close> calls of \<open>readline\<close>,
  the line that the next call returns, and the record that the \<open>try\<close> of lines 363 and
  364 makes of a line for a given schema.
\<close>

fun skip_lines :: "nat \<Rightarrow> string \<Rightarrow> string" where
  "skip_lines 0 f = f"
| "skip_lines (Suc n) f = skip_lines n (snd (readline f))"

definition nth_line :: "nat \<Rightarrow> string \<Rightarrow> string" where
  "nth_line n f = fst (readline (skip_lines n f))"

definition line_row :: "('d, 'f) numeric \<Rightarrow> dtype \<Rightarrow> string \<Rightarrow> error + 'f cell list" where
  "line_row np dt line =
     convert_fields np (map snd dt) (take (length dt) (py_split (py_strip line)))"

subsection \<open>An instance of the numeric parameters\<close>

text \<open>
  For evaluating the model at concrete inputs: floats whose value is an integer, written
  as decimal literals such as \<open>10\<close> or \<open>10.0\<close>. On these, conversion, the cast to float32
  (below \<open>2 ^ 24\<close>, and for \<open>-1.0E+10 = - (5 ^ 10) * 2 ^ 10\<close>) and the cast to int64 are exact.
\<close>

definition int_valued_literal :: "string \<Rightarrow> int option" where
  "int_valued_literal s =
     (let ip = takeWhile (\<lambda>c. c \<noteq> CHR ''.'') s; fp = dropWhile (\<lambda>c. c \<noteq> CHR ''.'') s
      in if fp = [] \<or> list_all (\<lambda>c. c = CHR ''0'') (tl fp) then py_int ip else None)"

definition exact_np :: "(int, int) numeric" where
  "exact_np =
     \<lparr>float_of_str = int_valued_literal, to_float32 = (\<lambda>x. x), to_int64 = (\<lambda>x. x),
      neg_1e10 = - 10000000000, float_zero = 0,
      f32_sub_one = (\<lambda>x. x - 1)\<rparr>"

section \<open>Properties\<close>

subsection \<open>Basic facts\<close>

lemma bindE_Inr: "bindE x g = Inr y \<longleftrightarrow> (\<exists>v. x = Inr v \<and> g v = Inr y)"
  by (cases x) (simp_all add: bindE_def)

lemma bindE_simps [simp]: "bindE (Inl e) g = Inl e" "bindE (Inr v) g = g v"
  by (simp_all add: bindE_def)

lemma read_datasets_initial:
  assumes "read_datasets np f = Inr s"
  shows "current s = None \<and> npstr s \<le> 0 \<and> stress_period_data s = Map.empty \<and> ds8 s = Map.empty"
  using assms unfolding read_datasets_def Let_def
  by (auto simp: bindE_Inr split: prod.splits if_splits)

lemma control_line_nonempty: "control_line line = Inr r \<Longrightarrow> line \<noteq> []"
  by (auto simp: control_line_def int_at_def getitem_def py_split_def py_strip_def bindE_Inr Let_def)

text \<open>Whatever the file, \<open>load\<close> does not return a package object.\<close>

lemma load_never_returns_object: "fst (load np f m nper fs handles) \<noteq> Inr (Some obj)"
  by (auto simp: load_def load_body_def bindE_def split: file_arg.splits option.splits sum.splits)

text \<open>The fixed-column path stops at its first statement that uses a width.\<close>

lemma fixed_slices_code [code]:
  "fixed_slices ipos line [] istart t = Inr (t, istart)"
  "fixed_slices ipos line (ivar # ivars) istart t = Inl TypeError"
  by (simp_all add: call_list_def)

lemma fixed_format_fails: "fixed_format np aux cur ibnd line = Inl TypeError"
  by (simp add: fixed_format_def record_ipos_def upt_rec call_list_def)

lemma parse_record_cases:
  "parse_record np aux cur ibnd line =
     (case free_format np cur ibnd line of Inr cur' \<Rightarrow> Inr cur' | Inl e \<Rightarrow> Inl TypeError)"
  by (simp add: parse_record_def fixed_format_fails split: sum.splits)

text \<open>What one period changes in the local variables.\<close>

lemma period_empty_Inr:
  "period_empty np iper itmp s = Inr s' \<Longrightarrow>
     \<exists>cur. s' = s\<lparr>current := Some cur,
                   stress_period_data := (stress_period_data s)(iper \<mapsto> SPInt itmp)\<rparr>"
  by (auto simp: period_empty_def bindE_Inr)

lemma period_explicit_Inr:
  "period_explicit np iper itmp s = Inr s' \<Longrightarrow>
     \<exists>f1 cur0 cur3 f2 tds.
       period_records np itmp s = Inr (f1, cur0) \<and> to_zero_based np cur0 = Inr cur3 \<and>
       period_ds8 np itmp f1 s = Inr (f2, tds) \<and>
       s' = s\<lparr>fh := f2, current := Some cur3, tds8 := tds,
              stress_period_data := (stress_period_data s)(iper \<mapsto> SPArr cur3)\<rparr>"
  by (auto simp: period_explicit_def bindE_Inr)

lemma period_carry_Inr:
  "period_carry iper s = Inr s' \<Longrightarrow>
     \<exists>cur. current s = Some cur \<and>
       s' = s\<lparr>stress_period_data := (stress_period_data s)(iper \<mapsto> SPArr cur)\<rparr>"
  by (auto simp: period_carry_def split: option.splits)

lemma load_period_Inr:
  "load_period np iper line s = Inr s' \<Longrightarrow>
     \<exists>itmp irdflg iptflg. control_line line = Inr (itmp, irdflg, iptflg) \<and>
       (if itmp = 0 then period_empty np iper itmp s
        else if itmp > 0 then period_explicit np iper itmp s
        else period_carry iper s) = Inr s'"
  by (auto simp: load_period_def bindE_Inr)

lemma load_period_frame:
  assumes "load_period np iper line s = Inr s'"
  shows "ds8 s' = ds8 s \<and> npstr s' = npstr s \<and> icalc s' = icalc s \<and> aux_names s' = aux_names s
       \<and> (\<forall>k. k \<noteq> iper \<longrightarrow> stress_period_data s' k = stress_period_data s k)"
proof -
  from load_period_Inr [OF assms] obtain itmp irdflg iptflg where
    r: "(if itmp = 0 then period_empty np iper itmp s
        else if itmp > 0 then period_explicit np iper itmp s
        else period_carry iper s) = Inr s'" by blast
  show ?thesis
  proof (cases "itmp = 0")
    case True
    with r period_empty_Inr show ?thesis by fastforce
  next
    case False
    show ?thesis
    proof (cases "itmp > 0")
      case True
      with r False have "period_explicit np iper itmp s = Inr s'" by simp
      from period_explicit_Inr [OF this] show ?thesis by auto
    next
      case F2: False
      with r False have "period_carry iper s = Inr s'" by simp
      from period_carry_Inr [OF this] show ?thesis by auto
    qed
  qed
qed

lemma readline_Nil: "readline f = ([], r) \<Longrightarrow> f = [] \<and> r = []"
  by (cases f) (auto split: if_splits prod.splits)

lemma load_periods_frame:
  "load_periods np ipers s = Inr s' \<Longrightarrow>
     ds8 s' = ds8 s \<and> npstr s' = npstr s \<and> icalc s' = icalc s \<and> aux_names s' = aux_names s
     \<and> (\<forall>k. k \<notin> set ipers \<longrightarrow> stress_period_data s' k = stress_period_data s k)"
proof (induction ipers arbitrary: s)
  case Nil
  then show ?case by simp
next
  case (Cons iper rest)
  obtain line f' where rl: "readline (fh s) = (line, f')" by (cases "readline (fh s)")
  show ?case
  proof (cases "line = []")
    case True
    with Cons.prems rl show ?thesis by simp
  next
    case False
    with Cons.prems rl obtain s1 where
      s1: "load_period np iper line (s\<lparr>fh := f'\<rparr>) = Inr s1" and
      s2: "load_periods np rest s1 = Inr s'"
      by (auto simp: bindE_Inr)
    from load_period_frame [OF s1] Cons.IH [OF s2] show ?thesis by auto
  qed
qed

lemma load_locals_ds8: "load_locals np f m nper = Inr s \<Longrightarrow> ds8 s = Map.empty"
  by (auto simp: load_locals_def bindE_Inr dest!: load_periods_frame read_datasets_initial)

text \<open>The rows of an array filled with one scalar.\<close>

lemma sentinel_rows:
  "\<forall>row \<in> set (replicate n (map (\<lambda>(nm, ty). cast_cell np ty x) dt)).
     length row = length dt \<and> (\<forall>i < length row. row ! i = cast_cell np (snd (dt ! i)) x)"
  by (auto simp: case_prod_unfold)

text \<open>The records that the loop over the record lines stores.\<close>

lemma convert_fields_Inr:
  "convert_fields np tys toks = Inr row \<Longrightarrow>
     length row = length tys \<and> length toks = length tys \<and>
     (\<forall>i < length tys. convert_field np (tys ! i) (toks ! i) = Inr (row ! i))"
proof (induction np tys toks arbitrary: row rule: convert_fields.induct)
  case (2 np ty tys tok toks)
  from "2.prems" obtain c cs where
    c: "convert_field np ty tok = Inr c" and cs: "convert_fields np tys toks = Inr cs"
    and row: "row = c # cs"
    by (auto simp: bindE_Inr)
  from "2.IH" [OF cs] c row show ?case
    by (auto simp: nth_Cons split: nat.splits)
qed simp_all

lemma setitem_row_Inr:
  "setitem_row np a ibnd vals = Inr a' \<Longrightarrow>
     ibnd < length (ra_rows a) \<and>
     (\<exists>row. convert_fields np (map snd (ra_dtype a)) vals = Inr row \<and>
            a' = a\<lparr>ra_rows := (ra_rows a)[ibnd := row]\<rparr>)"
  by (auto simp: setitem_row_def bindE_Inr split: if_splits)

lemma parse_record_Inr:
  assumes "parse_record np aux cur ibnd line = Inr cur'"
  shows "ibnd < length (ra_rows cur) \<and>
     (\<exists>row. line_row np (ra_dtype cur) line = Inr row \<and>
            cur' = cur\<lparr>ra_rows := (ra_rows cur)[ibnd := row]\<rparr>)"
proof -
  from assms have "free_format np cur ibnd line = Inr cur'"
    by (simp add: parse_record_cases split: sum.splits)
  then show ?thesis
    by (auto simp: free_format_def line_row_def Let_def dest: setitem_row_Inr)
qed

lemma read_records_Inr:
  "read_records np aux itmp ibnds f cur = Inr (f', cur') \<Longrightarrow> distinct ibnds \<Longrightarrow>
     ra_dtype cur' = ra_dtype cur \<and> length (ra_rows cur') = length (ra_rows cur) \<and>
     f' = skip_lines (length ibnds) f \<and>
     (\<forall>i. i \<notin> set ibnds \<longrightarrow> ra_rows cur' ! i = ra_rows cur ! i) \<and>
     (\<forall>j < length ibnds.
        line_row np (ra_dtype cur) (nth_line j f) = Inr (ra_rows cur' ! (ibnds ! j)))"
proof (induction ibnds arbitrary: f cur)
  case Nil
  then show ?case by simp
next
  case (Cons ibnd rest)
  obtain line f1 where rl: "readline f = (line, f1)" by (cases "readline f")
  from Cons.prems(1) rl have noc: "\<not> py_in ''open/close'' (py_lower line)"
    by (auto simp: open_close_def split: if_splits)
  with Cons.prems(1) rl obtain cur1 where
    p: "parse_record np aux cur ibnd line = Inr cur1" and
    r: "read_records np aux itmp rest f1 cur1 = Inr (f', cur')"
    by (auto simp: bindE_Inr)
  from parse_record_Inr [OF p] obtain row where
    lt: "ibnd < length (ra_rows cur)" and
    row: "line_row np (ra_dtype cur) line = Inr row" and
    cur1: "cur1 = cur\<lparr>ra_rows := (ra_rows cur)[ibnd := row]\<rparr>" by blast
  from Cons.prems(2) have d: "distinct rest" and ni: "ibnd \<notin> set rest" by simp_all
  from Cons.IH [OF r d] have
    ih1: "ra_dtype cur' = ra_dtype cur1" and
    ih2: "length (ra_rows cur') = length (ra_rows cur1)" and
    ih3: "f' = skip_lines (length rest) f1" and
    ih4: "\<forall>i. i \<notin> set rest \<longrightarrow> ra_rows cur' ! i = ra_rows cur1 ! i" and
    ih5: "\<forall>j < length rest.
        line_row np (ra_dtype cur1) (nth_line j f1) = Inr (ra_rows cur' ! (rest ! j))"
    by blast+
  have dt: "ra_dtype cur1 = ra_dtype cur" using cur1 by simp
  have a: "ra_dtype cur' = ra_dtype cur" using ih1 dt by simp
  have b: "length (ra_rows cur') = length (ra_rows cur)" using ih2 cur1 by simp
  have c: "f' = skip_lines (length (ibnd # rest)) f" using ih3 rl by simp
  have e: "\<forall>i. i \<notin> set (ibnd # rest) \<longrightarrow> ra_rows cur' ! i = ra_rows cur ! i"
    using ih4 cur1 by auto
  have at: "ra_rows cur' ! ibnd = row" using ih4 ni cur1 lt by simp
  have g: "\<forall>j < length (ibnd # rest).
        line_row np (ra_dtype cur) (nth_line j f) = Inr (ra_rows cur' ! ((ibnd # rest) ! j))"
  proof (intro allI impI)
    fix j assume j: "j < length (ibnd # rest)"
    show "line_row np (ra_dtype cur) (nth_line j f) = Inr (ra_rows cur' ! ((ibnd # rest) ! j))"
    proof (cases j)
      case 0
      then show ?thesis using row at rl by (simp add: nth_line_def)
    next
      case (Suc j')
      with j have "j' < length rest" by simp
      with ih5 have "line_row np (ra_dtype cur1) (nth_line j' f1) = Inr (ra_rows cur' ! (rest ! j'))"
        by blast
      then show ?thesis using Suc dt rl by (simp add: nth_line_def)
    qed
  qed
  from a b c e g show ?case by blast
qed

text \<open>Decrementing a one-based index does not wrap around.\<close>

lemma wrap64_decrement: "in_int64 v \<Longrightarrow> 1 \<le> v \<Longrightarrow> wrap64 (v - 1) = v - 1"
  by (simp add: wrap64_def in_int64_def)

text \<open>An explicit period: its array, its schema and its rows.\<close>

lemma get_empty_structured:
  "get_empty np n (Some aux) True = Inr cur \<Longrightarrow>
     ra_dtype cur = get_default_dtype True @ map (\<lambda>nm. (nm, NpFloat32)) aux \<and>
     length (ra_rows cur) = nat n"
  by (auto simp: get_empty_def add_to_dtype_def bindE_Inr split: if_splits)

lemma read_parameters_fails: "read_parameters f \<noteq> Inr r"
  by (auto simp: read_parameters_def bindE_Inr split: prod.splits)

lemma period_records_Inr:
  assumes "period_records np itmp s = Inr (f1, cur0)"
  shows "ra_dtype cur0 = get_default_dtype True @ map (\<lambda>nm. (nm, NpFloat32)) (aux_names s) \<and>
     length (ra_rows cur0) = nat itmp \<and>
     (\<forall>j < nat itmp. line_row np (ra_dtype cur0) (nth_line j (fh s)) = Inr (ra_rows cur0 ! j))"
proof -
  from assms read_parameters_fails [of "fh s" "(f1, cur0)"] have np0: "\<not> npstr s > 0"
    by (auto simp: period_records_def)
  with assms obtain cur where
    e: "get_empty np itmp (Some (aux_names s)) True = Inr cur" and
    r: "read_records np (aux_names s) itmp [0..<nat itmp] (fh s) cur = Inr (f1, cur0)"
    by (auto simp: period_records_def bindE_Inr)
  have d: "distinct [0..<nat itmp]" by simp
  from read_records_Inr [OF r d] get_empty_structured [OF e] show ?thesis by auto
qed

lemma isub_field_Inr:
  "isub_field np nm a = Inr a' \<Longrightarrow>
     \<exists>c. index_of nm (map fst (ra_dtype a)) = Some c \<and>
         a' = a\<lparr>ra_rows := map (\<lambda>row. row[c := sub_one np (row ! c)]) (ra_rows a)\<rparr>"
  by (auto simp: isub_field_def split: option.splits)

lemma to_zero_based_Inr:
  assumes "to_zero_based np cur0 = Inr cur3"
    and "ra_dtype cur0 = get_default_dtype True @ xs"
  shows "ra_dtype cur3 = ra_dtype cur0 \<and>
     ra_rows cur3 =
       map (\<lambda>row. row[0 := sub_one np (row ! 0), 1 := sub_one np (row ! 1),
                       2 := sub_one np (row ! 2)]) (ra_rows cur0)"
proof -
  from assms(1) obtain cur1 cur2 where
    k: "isub_field np ''k'' cur0 = Inr cur1" and
    i: "isub_field np ''i'' cur1 = Inr cur2" and
    j: "isub_field np ''j'' cur2 = Inr cur3"
    by (auto simp: to_zero_based_def bindE_Inr)
  have ik: "index_of ''k'' (map fst (ra_dtype cur0)) = Some 0"
    and ii: "index_of ''i'' (map fst (ra_dtype cur0)) = Some 1"
    and ij: "index_of ''j'' (map fst (ra_dtype cur0)) = Some 2"
    unfolding assms(2) by (simp_all add: get_default_dtype_def)
  from isub_field_Inr [OF k] ik have c1:
    "cur1 = cur0\<lparr>ra_rows := map (\<lambda>row. row[0 := sub_one np (row ! 0)]) (ra_rows cur0)\<rparr>"
    by simp
  from isub_field_Inr [OF i] ii c1 have c2:
    "cur2 = cur1\<lparr>ra_rows := map (\<lambda>row. row[1 := sub_one np (row ! 1)]) (ra_rows cur1)\<rparr>"
    by simp
  from isub_field_Inr [OF j] ij c1 c2 have c3:
    "cur3 = cur2\<lparr>ra_rows := map (\<lambda>row. row[2 := sub_one np (row ! 2)]) (ra_rows cur2)\<rparr>"
    by simp
  show ?thesis unfolding c3 c2 c1 by (simp add: comp_def)
qed

lemma period_explicit_entry:
  fixes np :: "('d, 'f) numeric"
  assumes "period_explicit np iper itmp s = Inr s'"
  shows "\<exists>(cur0 :: 'f recarray) a.
     current s' = Some a \<and> stress_period_data s' iper = Some (SPArr a) \<and>
     ra_dtype cur0 = get_default_dtype True @ map (\<lambda>nm. (nm, NpFloat32)) (aux_names s) \<and>
     ra_dtype a = ra_dtype cur0 \<and>
     length (ra_rows a) = nat itmp \<and>
     (\<forall>j < nat itmp.
        line_row np (ra_dtype cur0) (nth_line j (fh s)) = Inr (ra_rows cur0 ! j) \<and>
        ra_rows a ! j = (ra_rows cur0 ! j)[0 := sub_one np (ra_rows cur0 ! j ! 0),
                                          1 := sub_one np (ra_rows cur0 ! j ! 1),
                                          2 := sub_one np (ra_rows cur0 ! j ! 2)])"
proof -
  from period_explicit_Inr [OF assms] obtain f1 cur0 cur3 f2 tds where
    r: "period_records np itmp s = Inr (f1, cur0)" and
    z: "to_zero_based np cur0 = Inr cur3" and
    s': "s' = s\<lparr>fh := f2, current := Some cur3, tds8 := tds,
              stress_period_data := (stress_period_data s)(iper \<mapsto> SPArr cur3)\<rparr>"
    by blast
  from period_records_Inr [OF r] have
    dt: "ra_dtype cur0 = get_default_dtype True @ map (\<lambda>nm. (nm, NpFloat32)) (aux_names s)" and
    len: "length (ra_rows cur0) = nat itmp" and
    rows: "\<forall>j < nat itmp. line_row np (ra_dtype cur0) (nth_line j (fh s)) = Inr (ra_rows cur0 ! j)"
    by blast+
  from to_zero_based_Inr [OF z dt] have
    dt3: "ra_dtype cur3 = ra_dtype cur0" and
    rows3: "ra_rows cur3 =
       map (\<lambda>row. row[0 := sub_one np (row ! 0), 1 := sub_one np (row ! 1),
                       2 := sub_one np (row ! 2)]) (ra_rows cur0)"
    by blast+
  have a: "current s' = Some cur3" "stress_period_data s' iper = Some (SPArr cur3)"
    using s' by simp_all
  have b: "length (ra_rows cur3) = nat itmp" using rows3 len by simp
  have c: "\<forall>j < nat itmp.
        line_row np (ra_dtype cur0) (nth_line j (fh s)) = Inr (ra_rows cur0 ! j) \<and>
        ra_rows cur3 ! j = (ra_rows cur0 ! j)[0 := sub_one np (ra_rows cur0 ! j ! 0),
                                          1 := sub_one np (ra_rows cur0 ! j ! 1),
                                          2 := sub_one np (ra_rows cur0 ! j ! 2)]"
    using rows rows3 len by simp
  from a b c dt dt3 have
    "current s' = Some cur3 \<and> stress_period_data s' iper = Some (SPArr cur3) \<and>
     ra_dtype cur0 = get_default_dtype True @ map (\<lambda>nm. (nm, NpFloat32)) (aux_names s) \<and>
     ra_dtype cur3 = ra_dtype cur0 \<and>
     length (ra_rows cur3) = nat itmp \<and>
     (\<forall>j < nat itmp.
        line_row np (ra_dtype cur0) (nth_line j (fh s)) = Inr (ra_rows cur0 ! j) \<and>
        ra_rows cur3 ! j = (ra_rows cur0 ! j)[0 := sub_one np (ra_rows cur0 ! j ! 0),
                                          1 := sub_one np (ra_rows cur0 ! j ! 1),
                                          2 := sub_one np (ra_rows cur0 ! j ! 2)])"
    by simp
  then show ?thesis by (intro exI)
qed

text \<open>The index fields of a row as read; the loop over the periods in two parts.\<close>

lemma convert_field_int:
  "convert_field np NpInt tok = Inr c \<Longrightarrow> \<exists>v. py_int tok = Some v \<and> in_int64 v \<and> c = IntC v"
  by (auto simp: convert_field_def split: option.splits if_splits)

lemma line_row_indices:
  assumes "line_row np dt line = Inr row"
    and "dt = get_default_dtype True @ xs"
    and "t = py_split (py_strip line)"
  shows "length row = length dt \<and> 10 \<le> length dt \<and>
     (\<exists>kv iv jv. py_int (t ! 0) = Some kv \<and> py_int (t ! 1) = Some iv \<and> py_int (t ! 2) = Some jv
        \<and> in_int64 kv \<and> in_int64 iv \<and> in_int64 jv
        \<and> row ! 0 = IntC kv \<and> row ! 1 = IntC iv \<and> row ! 2 = IntC jv)"
proof -
  let ?toks = "take (length dt) t"
  from assms(1,3) have cf: "convert_fields np (map snd dt) ?toks = Inr row"
    by (simp add: line_row_def)
  from convert_fields_Inr [OF cf] have
    len: "length row = length dt" and lt: "length ?toks = length dt" and
    each: "\<forall>i < length dt. convert_field np (map snd dt ! i) (?toks ! i) = Inr (row ! i)"
    by simp_all
  have ten: "10 \<le> length dt" unfolding assms(2) by (simp add: get_default_dtype_def)
  have ty: "map snd dt ! 0 = NpInt" "map snd dt ! 1 = NpInt" "map snd dt ! 2 = NpInt"
    unfolding assms(2) by (simp_all add: get_default_dtype_def)
  have lts: "0 < length dt" "1 < length dt" "2 < length dt" using ten by linarith+
  then have tk: "?toks ! 0 = t ! 0" "?toks ! 1 = t ! 1" "?toks ! 2 = t ! 2"
    by (simp_all only: nth_take)
  from each lts have "convert_field np (map snd dt ! 0) (?toks ! 0) = Inr (row ! 0)"
    "convert_field np (map snd dt ! 1) (?toks ! 1) = Inr (row ! 1)"
    "convert_field np (map snd dt ! 2) (?toks ! 2) = Inr (row ! 2)" by blast+
  then have "convert_field np NpInt (t ! 0) = Inr (row ! 0)"
    "convert_field np NpInt (t ! 1) = Inr (row ! 1)"
    "convert_field np NpInt (t ! 2) = Inr (row ! 2)"
    unfolding ty tk by simp_all
  from this [THEN convert_field_int] len ten show ?thesis by blast
qed

lemma take3_updates:
  "3 \<le> length row \<Longrightarrow> take 3 (row[0 := a, 1 := b, 2 := c]) = [a, b, c]"
  by (cases row; cases "tl row"; cases "tl (tl row)") auto

lemma load_periods_eof: "fh s = [] \<Longrightarrow> load_periods np ipers s = Inr s"
  by (cases ipers) simp_all

lemma bindE_assoc: "bindE (bindE x g) h = bindE x (\<lambda>v. bindE (g v) h)"
  by (cases x) simp_all

lemma load_periods_append:
  "load_periods np (xs @ ys) s = bindE (load_periods np xs s) (load_periods np ys)"
proof (induction xs arbitrary: s)
  case Nil
  then show ?case by simp
next
  case (Cons iper rest)
  obtain line f' where rl: "readline (fh s) = (line, f')" by (cases "readline (fh s)")
  show ?case
  proof (cases "line = []")
    case True
    with rl readline_Nil have "fh s = []" by blast
    with True rl show ?thesis by (simp add: load_periods_eof)
  next
    case False
    with rl show ?thesis
      by (cases "load_period np iper line (s\<lparr>fh := f'\<rparr>)") (simp_all add: Cons.IH)
  qed
qed

lemma control_line_explicit:
  assumes "load_period np iper line s = Inr s'"
    and "control_line line = Inr (itmp, irdflg, iptflg)" and "0 < itmp"
  shows "period_explicit np iper itmp s = Inr s'"
  using assms by (simp add: load_period_def)

lemma control_line_carry:
  assumes "load_period np iper line s = Inr s'"
    and "control_line line = Inr (itmp, irdflg, iptflg)" and "itmp < 0"
  shows "period_carry iper s = Inr s'"
  using assms by (simp add: load_period_def)

lemma load_periods_step:
  assumes "load_periods np (iper # rest) s = Inr s'"
    and "readline (fh s) = (line, f')" and "control_line line = Inr r"
  shows "\<exists>s1. load_period np iper line (s\<lparr>fh := f'\<rparr>) = Inr s1 \<and> load_periods np rest s1 = Inr s'"
  using assms control_line_nonempty [OF assms(3)] by (auto simp: bindE_Inr)

subsection \<open>The value returned by \<open>load\<close>\<close>

text \<open>
  C1. The claim: for a well-formed file, \<open>load\<close> returns a populated \<open>ModflowStr\<close> object
  or fails, and never completes returning nothing. On the code: a file with a heading, the
  line of dataset 2 and one period of one record is read without an error, and the value
  returned is \<open>None\<close>.
\<close>

theorem load_returns_None:
  "load exact_np
     (FileHandle ''# STR\<newline>1 1 0 0 0 1.0 0 0\<newline>1\<newline>1 2 3 4 5 10.0 1.0 5.0 0.0 2.0\<newline>'')
     \<lparr>model_nper = 1\<rparr> None Map.empty [] = (Inr None, [])"
  by code_simp

subsection \<open>Record lines in fixed columns\<close>

text \<open>
  C4. The claim: a record line that fails in free format is parsed again in fixed columns
  of widths 5/5/5/5/5/15/10/10/10/10, with the same result as the free-format line of the
  same values. On the code: in the record line below, segment 10000 and reach 10000 fill
  their columns, so the line has eight tokens; free format fails, and the fixed-column
  path raises TypeError, which ends \<open>load\<close>.
\<close>

theorem fixed_column_line_raises:
  "fst (load exact_np
     (FileHandle (''# STR\<newline>1 1 0 0 0 1.0 0 0\<newline>1\<newline>'' @
        ''    1    2    31000010000           10.0       1.0       5.0       0.0       2.0\<newline>''))
     \<lparr>model_nper = 1\<rparr> None Map.empty []) = Inl TypeError"
  by code_simp

subsection \<open>Parameters\<close>

text \<open>
  C5. The claim: with parameters declared, the records of a period are the concatenation
  of the records of the parameters it names. On the code: the file below declares one
  parameter, and \<open>load\<close> raises NameError at line 281, before any period is read.
\<close>

theorem parameters_raise_NameError:
  "fst (load exact_np
     (FileHandle (''# STR\<newline>PARAMETER 1 2\<newline>2 1 0 0 0 1.0 0 0\<newline>'' @
        ''COND1 STR 1.0 2\<newline>1 1 1 1 1 10.0 1.0 5.0 0.0 2.0\<newline>'' @
        ''1 1 2 1 2 10.0 1.0 5.0 0.0 2.0\<newline>1\<newline>COND1\<newline>''))
     \<lparr>model_nper = 1\<rparr> None Map.empty []) = Inl NameError"
  by code_simp

subsection \<open>External files\<close>

text \<open>
  C6. The claim: when the file named by an \<open>OPEN/CLOSE\<close> line has a row count other than
  \<open>itmp\<close>, \<open>load\<close> fails with a validation error. On the code: the period below declares
  one record and names a file of two rows; \<open>load\<close> raises NameError at line 349, before
  the row count is compared (and does so as well when the file has one row).
\<close>

theorem open_close_raises_NameError:
  "fst (load exact_np
     (FileHandle ''# STR\<newline>1 1 0 0 0 1.0 0 0\<newline>1\<newline>OPEN/CLOSE recs.dat\<newline>'')
     \<lparr>model_nper = 1\<rparr> None
     [''recs.dat'' \<mapsto> ''1 2 3 4 5 10.0 1.0 5.0 0.0 2.0\<newline>1 2 4 4 6 10.0 1.0 5.0 0.0 2.0\<newline>'']
     []) = Inl NameError
   \<and> fst (load exact_np
     (FileHandle ''# STR\<newline>1 1 0 0 0 1.0 0 0\<newline>1\<newline>OPEN/CLOSE recs.dat\<newline>'')
     \<lparr>model_nper = 1\<rparr> None
     [''recs.dat'' \<mapsto> ''1 2 3 4 5 10.0 1.0 5.0 0.0 2.0\<newline>'']
     []) = Inl NameError"
  by code_simp

subsection \<open>Carry-forward in the first period\<close>

text \<open>
  C7. When the control line of the first period (period index 0) has \<open>itmp < 0\<close>, \<open>load\<close>
  fails: there is no previous period, the local \<open>current\<close> is not bound, and copying it
  raises UnboundLocalError. This holds for a file handle and for a file name.
\<close>

theorem first_period_carry_forward_fails:
  assumes "read_datasets np f = Inr s0"
    and "readline (fh s0) = (line, f')"
    and "control_line line = Inr (itmp, irdflg, iptflg)"
    and "itmp < 0"
    and "0 < (case nper of None \<Rightarrow> model_nper m | Some n \<Rightarrow> n)"
  shows "fst (load np (FileHandle f) m nper fs handles) = Inl UnboundLocalError
       \<and> (fs filename = Some f \<longrightarrow>
            fst (load np (FileName filename) m nper fs handles) = Inl UnboundLocalError)"
proof -
  obtain n where n: "(case nper of None \<Rightarrow> model_nper m | Some n \<Rightarrow> n) = Suc n"
    using assms(5) by (cases "case nper of None \<Rightarrow> model_nper m | Some n \<Rightarrow> n") auto
  have cur: "current s0 = None" using read_datasets_initial [OF assms(1)] by simp
  have ne: "line \<noteq> []" using assms(3) by (rule control_line_nonempty)
  have step: "load_period np 0 line (s0\<lparr>fh := f'\<rparr>) = Inl UnboundLocalError"
    using assms(3,4) cur by (simp add: load_period_def period_carry_def)
  have "[0..<Suc n] = 0 # [1..<Suc n]" by (simp add: upt_rec)
  then have "load_periods np [0..<Suc n] s0 = Inl UnboundLocalError"
    using assms(2) ne step by simp
  then have "load_body np f m nper = Inl UnboundLocalError"
    using assms(1) n by (simp add: load_body_def load_locals_def)
  then show ?thesis by (simp add: load_def)
qed

theorem first_period_carry_forward_witness:
  "fst (load exact_np (FileHandle ''# STR\<newline>1 1 0 0 0 1.0 0 0\<newline>-1\<newline>'')
          \<lparr>model_nper = 1\<rparr> None Map.empty []) = Inl UnboundLocalError"
proof -
  let ?f = "''# STR\<newline>1 1 0 0 0 1.0 0 0\<newline>-1\<newline>''"
  have "case read_datasets exact_np ?f of Inl e \<Rightarrow> False | Inr s \<Rightarrow> fh s = ''-1\<newline>''"
    by code_simp
  then obtain s0 :: "(int, int) locals"
    where s0: "read_datasets exact_np ?f = Inr s0" and fh0: "fh s0 = ''-1\<newline>''"
    by (auto split: sum.splits)
  have rl: "readline (fh s0) = (''-1\<newline>'', [])" unfolding fh0 by code_simp
  have cl: "control_line ''-1\<newline>'' = Inr (- 1, 0, 0)" by code_simp
  have neg: "(- 1 :: int) < 0" by simp
  have pos: "0 < (case None of None \<Rightarrow> model_nper \<lparr>model_nper = 1\<rparr> | Some n \<Rightarrow> n)" by simp
  from first_period_carry_forward_fails [OF s0 rl cl neg pos]
  show ?thesis by blast
qed

subsection \<open>Dataset 8\<close>

text \<open>
  C8. The claim: with \<open>icalc > 0\<close> the triples of a period are read and attached to the
  period's entry of the returned dataset, and carried forward with it. On the code: the
  file below has \<open>icalc = 1\<close>, a first period of one record with its triple and a second
  period with \<open>itmp = -1\<close>. The triple is read into the local \<open>tds8\<close>; the dictionary
  \<open>ds8\<close> has no entry for either period when \<open>load\<close> returns, and \<open>load\<close> returns \<open>None\<close>.
\<close>

theorem dataset8_not_attached:
  "(case load_locals exact_np
      (''# STR\<newline>1 1 0 0 1 1.0 0 0\<newline>1\<newline>1 2 3 4 5 10.0 1.0 5.0 0.0 2.0\<newline>'' @
       ''7.0 8.0 9.0\<newline>-1\<newline>'')
      \<lparr>model_nper = 2\<rparr> None of
      Inl e \<Rightarrow> False
    | Inr s \<Rightarrow> tds8 s = Some [(7, 8, 9)] \<and> ds8 s 0 = None \<and> ds8 s 1 = None \<and>
        stress_period_data s 0 \<noteq> None \<and> stress_period_data s 1 \<noteq> None)
   \<and> fst (load exact_np
      (FileHandle (''# STR\<newline>1 1 0 0 1 1.0 0 0\<newline>1\<newline>1 2 3 4 5 10.0 1.0 5.0 0.0 2.0\<newline>'' @
       ''7.0 8.0 9.0\<newline>-1\<newline>''))
      \<lparr>model_nper = 2\<rparr> None Map.empty []) = Inr None"
  by code_simp

subsection \<open>File handles\<close>

text \<open>
  C9. The claim: every file handle that \<open>load\<close> or \<open>write_file\<close> opens is closed on every
  exit path of the call, parse failures included. On the code: \<open>load\<close> is given the name of
  a file whose first control line is not a number. It opens the file (line 220) and raises
  ValueError (line 297); no statement closes the file, and the exception leaves \<open>load\<close>
  with the file among the open ones.
\<close>

theorem load_failure_leaves_file_open:
  "load exact_np (FileName ''bad.str'') \<lparr>model_nper = 1\<rparr> None
     [''bad.str'' \<mapsto> ''# STR\<newline>1 1 0 0 0 1.0 0 0\<newline>x\<newline>''] []
   = (Inl ValueError, [''bad.str''])"
  by code_simp

subsection \<open>Empty record arrays\<close>

text \<open>
  C10, as stated: for every \<open>ncells \<ge> 0\<close> and every list of auxiliary names, \<open>get_empty\<close>
  returns an array of \<open>ncells\<close> records. This fails for a list that names a field twice:
  extending the schema fails.
\<close>

theorem get_empty_duplicate_name:
  "get_empty exact_np 1 (Some [''a'', ''a'']) True = Inl SchemaError"
  by code_simp

text \<open>
  C10, amended: for every \<open>ncells \<ge> 0\<close> and every list of auxiliary names that, compared
  without regard to case, has no duplicates and no name of the default schema,
  \<open>get_empty\<close> returns an array of \<open>ncells\<close> records whose schema is the default schema
  of the grid topology (ten fields \<open>k, i, j, segment, reach, flow, stage, cond, sbot, stop\<close>
  when structured, eight fields starting with \<open>node\<close> otherwise) followed by one float32
  field per auxiliary name, and every field of every record is the sentinel \<open>-1.0E+10\<close>
  cast to the field's type; without auxiliary names (\<open>None\<close>) the schema is the default
  one.
\<close>

theorem get_empty_sentinel:
  assumes "0 \<le> ncells"
    and "distinct (map py_lower (map fst (get_default_dtype structured) @ names))"
  shows "(\<exists>a. get_empty np ncells (Some names) structured = Inr a
           \<and> length (ra_rows a) = nat ncells
           \<and> ra_dtype a = get_default_dtype structured @ map (\<lambda>n. (n, NpFloat32)) names
           \<and> (\<forall>row \<in> set (ra_rows a).
                 length row = length (ra_dtype a) \<and>
                 (\<forall>i < length row.
                    row ! i = cast_cell np (snd (ra_dtype a ! i)) (neg_1e10 np))))
       \<and> (\<exists>a. get_empty np ncells None structured = Inr a
           \<and> length (ra_rows a) = nat ncells
           \<and> ra_dtype a = get_default_dtype structured
           \<and> (\<forall>row \<in> set (ra_rows a).
                 length row = length (ra_dtype a) \<and>
                 (\<forall>i < length row.
                    row ! i = cast_cell np (snd (ra_dtype a ! i)) (neg_1e10 np))))
       \<and> get_default_dtype True =
           [(''k'', NpInt), (''i'', NpInt), (''j'', NpInt), (''segment'', NpInt),
            (''reach'', NpInt), (''flow'', NpFloat32), (''stage'', NpFloat32),
            (''cond'', NpFloat32), (''sbot'', NpFloat32), (''stop'', NpFloat32)]
       \<and> get_default_dtype False =
           [(''node'', NpInt), (''segment'', NpInt), (''reach'', NpInt),
            (''flow'', NpFloat32), (''stage'', NpFloat32), (''cond'', NpFloat32),
            (''sbot'', NpFloat32), (''stop'', NpFloat32)]"
proof -
  let ?dt = "get_default_dtype structured @ map (\<lambda>n. (n, NpFloat32)) names"
  have a: "get_empty np ncells (Some names) structured =
      Inr \<lparr>ra_dtype = ?dt,
           ra_rows = replicate (nat ncells) (map (\<lambda>(n, ty). cast_cell np ty (neg_1e10 np)) ?dt)\<rparr>"
    using assms by (simp add: get_empty_def add_to_dtype_def)
  have b: "get_empty np ncells None structured =
      Inr \<lparr>ra_dtype = get_default_dtype structured,
           ra_rows = replicate (nat ncells)
             (map (\<lambda>(n, ty). cast_cell np ty (neg_1e10 np)) (get_default_dtype structured))\<rparr>"
    using assms(1) by (simp add: get_empty_def)
  have c: "get_default_dtype True =
           [(''k'', NpInt), (''i'', NpInt), (''j'', NpInt), (''segment'', NpInt),
            (''reach'', NpInt), (''flow'', NpFloat32), (''stage'', NpFloat32),
            (''cond'', NpFloat32), (''sbot'', NpFloat32), (''stop'', NpFloat32)]"
    by (simp add: get_default_dtype_def)
  have d: "get_default_dtype False =
           [(''node'', NpInt), (''segment'', NpInt), (''reach'', NpInt),
            (''flow'', NpFloat32), (''stage'', NpFloat32), (''cond'', NpFloat32),
            (''sbot'', NpFloat32), (''stop'', NpFloat32)]"
    by (simp add: get_default_dtype_def)
  from sentinel_rows [of "nat ncells" np "neg_1e10 np" ?dt]
  have a': "\<exists>a. get_empty np ncells (Some names) structured = Inr a
           \<and> length (ra_rows a) = nat ncells
           \<and> ra_dtype a = ?dt
           \<and> (\<forall>row \<in> set (ra_rows a).
                 length row = length (ra_dtype a) \<and>
                 (\<forall>i < length row.
                    row ! i = cast_cell np (snd (ra_dtype a ! i)) (neg_1e10 np)))"
    unfolding a by simp
  from sentinel_rows [of "nat ncells" np "neg_1e10 np" "get_default_dtype structured"]
  have b': "\<exists>a. get_empty np ncells None structured = Inr a
           \<and> length (ra_rows a) = nat ncells
           \<and> ra_dtype a = get_default_dtype structured
           \<and> (\<forall>row \<in> set (ra_rows a).
                 length row = length (ra_dtype a) \<and>
                 (\<forall>i < length row.
                    row ! i = cast_cell np (snd (ra_dtype a ! i)) (neg_1e10 np)))"
    unfolding b by simp
  from a' b' c d show ?thesis by blast
qed

theorem get_empty_sentinel_witness:
  "\<exists>a. get_empty exact_np 2 (Some [''iface'']) True = Inr a
      \<and> length (ra_rows a) = 2
      \<and> ra_dtype a = get_default_dtype True @ [(''iface'', NpFloat32)]
      \<and> ra_rows a = replicate 2 (replicate 5 (IntC (- 10000000000)) @ replicate 6 (FloatC (- 10000000000)))"
proof -
  have h1: "(0::int) \<le> 2" by simp
  have h2: "distinct (map py_lower (map fst (get_default_dtype True) @ [''iface'']))"
    by code_simp
  have e: "get_empty exact_np 2 (Some [''iface'']) True =
     Inr \<lparr>ra_dtype = get_default_dtype True @ [(''iface'', NpFloat32)],
          ra_rows = replicate 2 (replicate 5 (IntC (- 10000000000)) @ replicate 6 (FloatC (- 10000000000)))\<rparr>"
    by code_simp
  from get_empty_sentinel [OF h1 h2, of exact_np] e show ?thesis by simp
qed

subsection \<open>Carry-forward after an explicit period\<close>

text \<open>
  When the control line of period 0 has \<open>itmp > 0\<close> and the one of period 1 has
  \<open>itmp < 0\<close>, and \<open>load\<close> reaches its last lines (with at least two periods to read),
  the local dictionary \<open>stress_period_data\<close> holds for period 1 the same entry as for
  period 0: a record array (never the integer that stands for an empty period) with
  \<open>itmp\<close> records. The hypotheses name the steps of \<open>load\<close>: the datasets before the
  periods, the control line and the body of period 0, the control line of period 1.
\<close>

lemma carried_entry_is_previous:
  fixes np :: "('d, 'f) numeric"
  assumes ds: "read_datasets np f = Inr s0"
    and rl0: "readline (fh s0) = (line0, f0)"
    and cl0: "control_line line0 = Inr (itmp0, irdflg0, iptflg0)"
    and pos: "0 < itmp0"
    and p0: "load_period np 0 line0 (s0\<lparr>fh := f0\<rparr>) = Inr s1"
    and rl1: "readline (fh s1) = (line1, f1)"
    and cl1: "control_line line1 = Inr (itmp1, irdflg1, iptflg1)"
    and neg: "itmp1 < 0"
    and fin: "load_locals np f m nper = Inr s"
    and n2: "2 \<le> (case nper of None \<Rightarrow> model_nper m | Some n \<Rightarrow> n)"
  shows "stress_period_data s 1 = stress_period_data s 0
       \<and> (\<exists>a. stress_period_data s 1 = Some (SPArr a) \<and> length (ra_rows a) = nat itmp0)"
proof -
  let ?n = "case nper of None \<Rightarrow> model_nper m | Some n \<Rightarrow> n"
  from fin ds have all: "load_periods np [0..<?n] s0 = Inr s"
    by (simp add: load_locals_def)
  from n2 have split: "[0..<?n] = 0 # 1 # [2..<?n]"
    by (simp add: upt_conv_Cons numeral_2_eq_2)
  from all split have all': "load_periods np (0 # 1 # [2..<?n]) s0 = Inr s" by simp
  from load_periods_step [OF all' rl0 cl0] p0 have
    r1: "load_periods np (1 # [2..<?n]) s1 = Inr s" by auto
  from load_periods_step [OF r1 rl1 cl1] obtain s2 where
    p1: "load_period np 1 line1 (s1\<lparr>fh := f1\<rparr>) = Inr s2" and
    r2: "load_periods np [2..<?n] s2 = Inr s" by blast
  from period_explicit_entry [OF control_line_explicit [OF p0 cl0 pos]] obtain a where
    cur: "current s1 = Some a" and e0: "stress_period_data s1 0 = Some (SPArr a)" and
    len: "length (ra_rows a) = nat itmp0" by auto
  from period_carry_Inr [OF control_line_carry [OF p1 cl1 neg]] cur have
    s2: "s2 = s1\<lparr>fh := f1, stress_period_data := (stress_period_data s1)(1 \<mapsto> SPArr a)\<rparr>"
    by auto
  from load_periods_frame [OF r2] have
    "stress_period_data s 0 = stress_period_data s2 0"
    "stress_period_data s 1 = stress_period_data s2 1" by simp_all
  with s2 e0 have "stress_period_data s 0 = Some (SPArr a)" "stress_period_data s 1 = Some (SPArr a)"
    by simp_all
  then show ?thesis using len by simp
qed

text \<open>
  C3. The claim: for periods [P0 explicit with at least one record, P1 with \<open>itmp < 0\<close>],
  the entry resolved for period 1 equals the one for period 0, with the same record list
  and the same supplementary data, and is never the empty variant. On the code: the file
  below has \<open>icalc = 1\<close>, a first period of two records with their two triples and a second
  period with \<open>itmp = -1\<close>. The local dictionary \<open>stress_period_data\<close> holds the same array
  of two records for both periods; the triples are in the local \<open>tds8\<close> only, no
  supplementary data is stored for either period, and \<open>load\<close> returns \<open>None\<close>, so that no
  dataset has an entry for period 1.
\<close>

theorem carry_forward_without_dataset8:
  "(case load_locals exact_np
      (''# STR\<newline>2 2 0 0 1 1.0 0 0\<newline>2\<newline>1 2 3 4 5 10.0 1.0 5.0 0.0 2.0\<newline>'' @
       ''1 2 4 4 6 11.0 1.0 4.0 0.0 2.0\<newline>7.0 8.0 9.0\<newline>6.0 8.0 9.0\<newline>-1\<newline>'')
      \<lparr>model_nper = 2\<rparr> None of
      Inl e \<Rightarrow> False
    | Inr s \<Rightarrow>
        stress_period_data s 1 = stress_period_data s 0 \<and>
        (case stress_period_data s 1 of
           Some (SPArr a) \<Rightarrow> length (ra_rows a) = 2
         | _ \<Rightarrow> False) \<and>
        tds8 s = Some [(7, 8, 9), (6, 8, 9)] \<and> ds8 s 0 = None \<and> ds8 s 1 = None)
   \<and> fst (load exact_np
      (FileHandle (''# STR\<newline>2 2 0 0 1 1.0 0 0\<newline>2\<newline>1 2 3 4 5 10.0 1.0 5.0 0.0 2.0\<newline>'' @
       ''1 2 4 4 6 11.0 1.0 4.0 0.0 2.0\<newline>7.0 8.0 9.0\<newline>6.0 8.0 9.0\<newline>-1\<newline>''))
      \<lparr>model_nper = 2\<rparr> None Map.empty []) = Inr None"
  by code_simp

subsection \<open>The index convention\<close>

text \<open>
  For every period \<open>k\<close> that \<open>load\<close> reads with \<open>itmp > 0\<close> and every record \<open>ibnd\<close>
  of it, whose line has the tokens \<open>t\<close>: the entry of period \<open>k\<close> in the local dictionary
  \<open>stress_period_data\<close> is an array of \<open>itmp\<close> records; the first three tokens are
  integers \<open>kv\<close>, \<open>iv\<close>, \<open>jv\<close>, and when they are one-based (at least 1) the fields
  \<open>k\<close>, \<open>i\<close>, \<open>j\<close> of the record are \<open>kv - 1\<close>, \<open>iv - 1\<close>, \<open>jv - 1\<close>. The hypotheses name
  the steps of \<open>load\<close>: the datasets, the periods before \<open>k\<close>, the control line of
  period \<open>k\<close>.
\<close>

lemma stored_indices_zero_based:
  fixes np :: "('d, 'f) numeric"
  assumes ds: "read_datasets np f = Inr s0"
    and before: "load_periods np [0..<k] s0 = Inr sk"
    and rl: "readline (fh sk) = (line, f')"
    and cl: "control_line line = Inr (itmp, irdflg, iptflg)"
    and pos: "0 < itmp"
    and fin: "load_locals np f m nper = Inr s"
    and k: "k < (case nper of None \<Rightarrow> model_nper m | Some n \<Rightarrow> n)"
    and ibnd: "ibnd < nat itmp"
    and t: "t = py_split (py_strip (nth_line ibnd f'))"
  shows "\<exists>a kv iv jv.
      stress_period_data s k = Some (SPArr a) \<and> length (ra_rows a) = nat itmp \<and>
      py_int (t ! 0) = Some kv \<and> py_int (t ! 1) = Some iv \<and> py_int (t ! 2) = Some jv \<and>
      (1 \<le> kv \<and> 1 \<le> iv \<and> 1 \<le> jv \<longrightarrow>
         take 3 (ra_rows a ! ibnd) = [IntC (kv - 1), IntC (iv - 1), IntC (jv - 1)])"
proof -
  let ?n = "case nper of None \<Rightarrow> model_nper m | Some n \<Rightarrow> n"
  from fin ds have all: "load_periods np [0..<?n] s0 = Inr s"
    by (simp add: load_locals_def)
  from k obtain d where d: "?n = k + Suc d" by (metis less_imp_Suc_add add_Suc_right)
  have "[0..<k + Suc d] = [0..<k] @ [k..<k + Suc d]" by (rule upt_add_eq_append) simp
  moreover have "[k..<k + Suc d] = k # [Suc k..<k + Suc d]" by (rule upt_conv_Cons) simp
  ultimately have split: "[0..<?n] = [0..<k] @ (k # [Suc k..<?n])" unfolding d by simp
  from all before have rest: "load_periods np (k # [Suc k..<?n]) sk = Inr s"
    unfolding split load_periods_append by simp
  from load_periods_step [OF rest rl cl] obtain s1 where
    p: "load_period np k line (sk\<lparr>fh := f'\<rparr>) = Inr s1" and
    r: "load_periods np [Suc k..<?n] s1 = Inr s" by blast
  let ?sk = "sk\<lparr>fh := f'\<rparr>"
  from period_explicit_entry [OF control_line_explicit [OF p cl pos]]
  obtain cur0 :: "'f recarray" and a where H:
    "current s1 = Some a \<and> stress_period_data s1 k = Some (SPArr a) \<and>
     ra_dtype cur0 = get_default_dtype True @ map (\<lambda>nm. (nm, NpFloat32)) (aux_names ?sk) \<and>
     ra_dtype a = ra_dtype cur0 \<and>
     length (ra_rows a) = nat itmp \<and>
     (\<forall>j < nat itmp.
        line_row np (ra_dtype cur0) (nth_line j (fh ?sk)) = Inr (ra_rows cur0 ! j) \<and>
        ra_rows a ! j = (ra_rows cur0 ! j)[0 := sub_one np (ra_rows cur0 ! j ! 0),
                                          1 := sub_one np (ra_rows cur0 ! j ! 1),
                                          2 := sub_one np (ra_rows cur0 ! j ! 2)])"
    by (elim exE)
  have sk: "fh ?sk = f'" "aux_names ?sk = aux_names sk" by simp_all
  note H' = H [unfolded sk]
  from H' have e: "stress_period_data s1 k = Some (SPArr a)" by (elim conjE)
  from H' have dt0: "ra_dtype cur0 = get_default_dtype True @ map (\<lambda>nm. (nm, NpFloat32)) (aux_names sk)"
    by (elim conjE)
  from H' have len: "length (ra_rows a) = nat itmp" by (elim conjE)
  from H' have rows: "\<forall>j < nat itmp.
        line_row np (ra_dtype cur0) (nth_line j f') = Inr (ra_rows cur0 ! j) \<and>
        ra_rows a ! j = (ra_rows cur0 ! j)[0 := sub_one np (ra_rows cur0 ! j ! 0),
                                          1 := sub_one np (ra_rows cur0 ! j ! 1),
                                          2 := sub_one np (ra_rows cur0 ! j ! 2)]"
    by (elim conjE)
  let ?orig = "ra_rows cur0 ! ibnd"
  let ?final = "ra_rows a ! ibnd"
  note rw = rows [rule_format, OF ibnd]
  note lr = rw [THEN conjunct1] and upd = rw [THEN conjunct2]
  from line_row_indices [OF lr dt0 t] obtain kv iv jv where
    l0: "length ?orig = length (ra_dtype cur0)" and ten: "10 \<le> length (ra_dtype cur0)" and
    pk: "py_int (t ! 0) = Some kv" and pi: "py_int (t ! 1) = Some iv" and
    pj: "py_int (t ! 2) = Some jv" and
    rk: "in_int64 kv" and ri: "in_int64 iv" and rj: "in_int64 jv" and
    c0: "?orig ! 0 = IntC kv" and c1: "?orig ! 1 = IntC iv" and c2: "?orig ! 2 = IntC jv"
    by blast
  have three: "3 \<le> length ?orig" using l0 ten by linarith
  have t3: "take 3 ?final = [IntC (wrap64 (kv - 1)), IntC (wrap64 (iv - 1)), IntC (wrap64 (jv - 1))]"
  proof -
    have "take 3 ?final = [sub_one np (?orig ! 0), sub_one np (?orig ! 1), sub_one np (?orig ! 2)]"
      by (subst upd) (rule take3_updates [OF three])
    also have "\<dots> = [IntC (wrap64 (kv - 1)), IntC (wrap64 (iv - 1)), IntC (wrap64 (jv - 1))]"
      by (simp only: c0 c1 c2 sub_one_def cell.case)
    finally show ?thesis .
  qed
  from load_periods_frame [OF r] have "stress_period_data s k = stress_period_data s1 k" by simp
  with e have A: "stress_period_data s k = Some (SPArr a)" by simp
  have B: "1 \<le> kv \<and> 1 \<le> iv \<and> 1 \<le> jv \<longrightarrow>
         take 3 ?final = [IntC (kv - 1), IntC (iv - 1), IntC (jv - 1)]"
    using t3 rk ri rj by (simp add: wrap64_decrement)
  from A len pk pi pj B have
    "stress_period_data s k = Some (SPArr a) \<and> length (ra_rows a) = nat itmp \<and>
      py_int (t ! 0) = Some kv \<and> py_int (t ! 1) = Some iv \<and> py_int (t ! 2) = Some jv \<and>
      (1 \<le> kv \<and> 1 \<le> iv \<and> 1 \<le> jv \<longrightarrow>
         take 3 (ra_rows a ! ibnd) = [IntC (kv - 1), IntC (iv - 1), IntC (jv - 1)])"
    by (intro conjI)
  then show ?thesis by (intro exI)
qed

text \<open>
  C2. The claim: the index fields that \<open>load\<close> stores for a record of an explicit period
  are the one-based values of the file minus one, and writing the dataset back with
  \<open>write_file\<close> gives a file with the original one-based indices. On the code: the file
  below has one period of two records with the indices 1 2 3 and 1 2 4. The local
  dictionary of \<open>load\<close> holds 0 1 2 and 0 1 3 for them; \<open>load\<close> returns \<open>None\<close>, and
  writing back what it returned raises AttributeError, whatever \<open>mflist\<close> does.
\<close>

theorem round_trip_raises:
  "(case load_locals exact_np
      (''# STR\<newline>2 2 0 0 0 1.0 0 0\<newline>2\<newline>1 2 3 4 5 10.0 1.0 5.0 0.0 2.0\<newline>'' @
       ''1 2 4 4 6 11.0 1.0 4.0 0.0 2.0\<newline>'')
      \<lparr>model_nper = 1\<rparr> None of
      Inl e \<Rightarrow> False
    | Inr s \<Rightarrow>
        (case stress_period_data s 0 of
           Some (SPArr a) \<Rightarrow>
             map (take 3) (ra_rows a) = [[IntC 0, IntC 1, IntC 2], [IntC 0, IntC 1, IntC 3]]
         | _ \<Rightarrow> False))
   \<and> fst (load_then_write ml exact_np
      (FileHandle (''# STR\<newline>2 2 0 0 0 1.0 0 0\<newline>2\<newline>1 2 3 4 5 10.0 1.0 5.0 0.0 2.0\<newline>'' @
       ''1 2 4 4 6 11.0 1.0 4.0 0.0 2.0\<newline>''))
      \<lparr>model_nper = 1\<rparr> None Map.empty []) = Inl AttributeError"
  by code_simp

end
